theory Spec2Isabelle
  imports Complex_Main
begin

section \<open>Data model\<close>

text \<open>
  The notebook works on NumPy arrays of double precision numbers. The embedding takes
  every number of the source as a \<^typ>\<open>real\<close> and every NumPy function
  (\<open>np.sqrt\<close>, \<open>np.sin\<close>, \<open>np.cos\<close>, \<open>np.arctan2\<close>) as the exact function
  it approximates: rounding is not modelled. A row of an \<open>(n, 3)\<close> array is a triple,
  the array a list of rows. The integers \<open>nx\<close>, \<open>ny\<close>, \<open>i\<close>, \<open>j\<close> are Python ints.
\<close>

type_synonym vec3 = "real \<times> real \<times> real"

type_synonym vec2 = "real \<times> real"

text \<open>The exceptions the modelled functions can raise.\<close>

datatype py_error = ZeroDivisionError | IndexError | ValueError

text \<open>
  Reading and writing one row by an integer index, as Python and NumPy do it: a negative
  index counts from the end, an index outside \<open>[-n, n)\<close> raises \<open>IndexError\<close>.
\<close>

definition getitem :: "'a list \<Rightarrow> int \<Rightarrow> py_error + 'a" where
  "getitem xs i =
     (let n = int (length xs); k = (if i < 0 then n + i else i)
      in if 0 \<le> k \<and> k < n then Inr (xs ! nat k) else Inl IndexError)"

definition setitem :: "'a list \<Rightarrow> int \<Rightarrow> 'a \<Rightarrow> py_error + 'a list" where
  "setitem xs i v =
     (let n = int (length xs); k = (if i < 0 then n + i else i)
      in if 0 \<le> k \<and> k < n then Inr (xs[nat k := v]) else Inl IndexError)"

text \<open>The Euclidean norm of a row, as \<open>get_spins\<close> computes it.\<close>

fun norm3 :: "vec3 \<Rightarrow> real" where
  "norm3 (sx, sy, sz) = sqrt (sx ^ 2 + sy ^ 2 + sz ^ 2)"

fun neg3 :: "vec3 \<Rightarrow> vec3" where
  "neg3 (sx, sy, sz) = (- sx, - sy, - sz)"

section \<open>The lattice\<close>

text \<open>
  \<^verbatim>\<open>
  def get_index(nx, ny, i, j):
      if i < 0 or j < 0 or i >= nx or j >= ny:
          return -1
      return i + j * nx
  \<close>
\<close>

definition get_index :: "int \<Rightarrow> int \<Rightarrow> int \<Rightarrow> int \<Rightarrow> int" where
  "get_index nx ny i j =
     (if i < 0 \<or> j < 0 \<or> i \<ge> nx \<or> j \<ge> ny then - 1 else i + j * nx)"

text \<open>
  \<open>init_coordinates\<close> allocates \<open>np.zeros((nx * ny, 3))\<close>, which raises \<open>ValueError\<close>
  for a negative dimension, and fills it in two nested loops, \<open>for j in range(ny)\<close>
  around \<open>for i in range(nx)\<close>, each step storing one row at \<open>get_index(nx, ny, i, j)\<close>.
  The functions \<open>init_coordinates_i\<close> and \<open>init_coordinates_j\<close> are the inner and the
  outer loop, the array passed through them.
\<close>

fun init_coordinates_i ::
  "int \<Rightarrow> int \<Rightarrow> real \<Rightarrow> real \<Rightarrow> real \<Rightarrow> int \<Rightarrow> int list \<Rightarrow> vec3 list \<Rightarrow> py_error + vec3 list" where
  "init_coordinates_i nx ny dx dy h j [] coordinates = Inr coordinates"
| "init_coordinates_i nx ny dx dy h j (i # irest) coordinates =
     (let index = get_index nx ny i j;
          sign = (if j mod 2 = 0 then 1 else 0);
          r = (sign * dx / 2 + of_int i * dx + dx / 2, of_int j * dy + h / 2, 0)
      in case setitem coordinates index r of
           Inl e \<Rightarrow> Inl e
         | Inr coordinates' \<Rightarrow> init_coordinates_i nx ny dx dy h j irest coordinates')"

fun init_coordinates_j ::
  "int \<Rightarrow> int \<Rightarrow> real \<Rightarrow> real \<Rightarrow> real \<Rightarrow> int list \<Rightarrow> vec3 list \<Rightarrow> py_error + vec3 list" where
  "init_coordinates_j nx ny dx dy h [] coordinates = Inr coordinates"
| "init_coordinates_j nx ny dx dy h (j # jrest) coordinates =
     (case init_coordinates_i nx ny dx dy h j [0..nx - 1] coordinates of
        Inl e \<Rightarrow> Inl e
      | Inr coordinates' \<Rightarrow> init_coordinates_j nx ny dx dy h jrest coordinates')"

definition init_coordinates :: "int \<Rightarrow> int \<Rightarrow> real \<Rightarrow> py_error + vec3 list" where
  "init_coordinates nx ny radius =
     (let n = nx * ny;
          dy = sqrt 3 * radius;
          dx = 2 * radius;
          h = dx * 2 / sqrt 3
      in if n < 0 then Inl ValueError
         else init_coordinates_j nx ny dx dy h [0..ny - 1] (replicate (nat n) (0, 0, 0)))"

section \<open>The hexagonal cells\<close>

text \<open>
  \<^verbatim>\<open>
  def hexagon_corners(x, y, radius):
      angle_deg = [60 * i + 30 for i in range(6)]
      angle_rad = [a * np.pi / 180 for a in angle_deg]
      return [(x + radius * np.cos(theta),
               y + radius * np.sin(theta),
               0) for theta in angle_rad]
  \<close>
\<close>

definition hexagon_corners :: "real \<Rightarrow> real \<Rightarrow> real \<Rightarrow> vec3 list" where
  "hexagon_corners x y radius =
     (let angle_deg = map (\<lambda>i. 60 * i + 30) [0, 1, 2, 3, 4, 5 :: int];
          angle_rad = map (\<lambda>a. of_int a * pi / 180) angle_deg
      in map (\<lambda>theta. (x + radius * cos theta, y + radius * sin theta, 0)) angle_rad)"

text \<open>
  \<open>init_corners(coordinates, nx, ny, radius)\<close> runs the same two loops and appends one
  hexagon per step. Its body reads the row from \<open>c\<close>, the array bound at module level
  by \<open>c = init_coordinates(nx, ny, radius)\<close>, and never its parameter \<open>coordinates\<close>:
  \<^verbatim>\<open>
              index = get_index(nx, ny, i, j)
              x, y = c[index][0], c[index][1]
              corners.append(hexagon_corners(x, y, h * 0.5))
      corners = np.array(corners)
      corners = corners[:, :, :2]
  \<close>
  The module-level array is the first argument of the model. When the loops have appended
  nothing, \<open>np.array([])\<close> has one axis and the three-axis slice raises \<open>IndexError\<close>.
\<close>

fun init_corners_i ::
  "vec3 list \<Rightarrow> int \<Rightarrow> int \<Rightarrow> real \<Rightarrow> int \<Rightarrow> int list \<Rightarrow> vec3 list list \<Rightarrow> py_error + vec3 list list" where
  "init_corners_i c nx ny h j [] corners = Inr corners"
| "init_corners_i c nx ny h j (i # irest) corners =
     (let index = get_index nx ny i j
      in case getitem c index of
           Inl e \<Rightarrow> Inl e
         | Inr (x, y, z) \<Rightarrow>
             init_corners_i c nx ny h j irest (corners @ [hexagon_corners x y (h * 0.5)]))"

fun init_corners_j ::
  "vec3 list \<Rightarrow> int \<Rightarrow> int \<Rightarrow> real \<Rightarrow> int list \<Rightarrow> vec3 list list \<Rightarrow> py_error + vec3 list list" where
  "init_corners_j c nx ny h [] corners = Inr corners"
| "init_corners_j c nx ny h (j # jrest) corners =
     (case init_corners_i c nx ny h j [0..nx - 1] corners of
        Inl e \<Rightarrow> Inl e
      | Inr corners' \<Rightarrow> init_corners_j c nx ny h jrest corners')"

definition init_corners ::
  "vec3 list \<Rightarrow> vec3 list \<Rightarrow> int \<Rightarrow> int \<Rightarrow> real \<Rightarrow> py_error + vec2 list list" where
  "init_corners c coordinates nx ny radius =
     (let dy = sqrt 3 * radius;
          dx = 2 * radius;
          h = dx * 2 / sqrt 3
      in case init_corners_j c nx ny h [0..ny - 1] [] of
           Inl e \<Rightarrow> Inl e
         | Inr corners \<Rightarrow>
             if corners = [] then Inl IndexError
             else Inr (map (map (\<lambda>(x, y, z). (x, y))) corners))"

section \<open>The spin field\<close>

text \<open>
  \<open>np.arctan2(y, x)\<close> is the angle of the point \<open>(x, y)\<close> in \<open>(-\<pi>, \<pi>]\<close>, and \<open>0\<close> at
  the origin.
\<close>

definition arctan2 :: "real \<Rightarrow> real \<Rightarrow> real" where
  "arctan2 y x =
     (if 0 < x then arctan (y / x)
      else if x < 0 then (if 0 \<le> y then arctan (y / x) + pi else arctan (y / x) - pi)
      else if 0 < y then pi / 2
      else if y < 0 then - (pi / 2)
      else 0)"

text \<open>
  \<^verbatim>\<open>
  def s_skyrmion(r, r_sk, center=(0, 0), helicity=(0.5 * np.pi), vorticity=1, chirality=1):
      x, y = r[0] - center[0], r[1] - center[1]
      rho = np.sqrt(x ** 2 + y ** 2)
      psi = vorticity * np.arctan2(y, x) + helicity
      k = np.pi / r_sk
      if rho <= r_sk:
          return np.array([chirality * np.sin(k * rho) * np.cos(psi),
                           chirality * np.sin(k * rho) * np.sin(psi),
                           -chirality * np.cos(k * rho)])
      else:
          return np.array([0, 0, chirality])
  \<close>
  \<open>np.pi\<close> is a Python float and \<open>r_sk\<close> a Python number (the widget passes the int of
  a slider), so \<open>np.pi / r_sk\<close> raises \<open>ZeroDivisionError\<close> when \<open>r_sk\<close> is zero.
\<close>

definition s_skyrmion ::
  "vec3 \<Rightarrow> real \<Rightarrow> vec2 \<Rightarrow> real \<Rightarrow> real \<Rightarrow> real \<Rightarrow> py_error + vec3" where
  "s_skyrmion r r_sk center helicity vorticity chirality =
     (let x = fst r - fst center;
          y = fst (snd r) - snd center;
          rho = sqrt (x ^ 2 + y ^ 2);
          psi = vorticity * arctan2 y x + helicity
      in if r_sk = 0 then Inl ZeroDivisionError
         else
           let k = pi / r_sk
           in if rho \<le> r_sk
              then Inr (chirality * sin (k * rho) * cos psi,
                        chirality * sin (k * rho) * sin psi,
                        - chirality * cos (k * rho))
              else Inr (0, 0, chirality))"

text \<open>
  \<open>s_skyrmion_v = np.vectorize(s_skyrmion, signature='(3)->(3)', ...)\<close> calls
  \<open>s_skyrmion\<close> on the rows in order; the first exception ends the call.
\<close>

fun s_skyrmion_v ::
  "vec3 list \<Rightarrow> real \<Rightarrow> vec2 \<Rightarrow> real \<Rightarrow> real \<Rightarrow> real \<Rightarrow> py_error + vec3 list" where
  "s_skyrmion_v [] r_sk center helicity vorticity chirality = Inr []"
| "s_skyrmion_v (r # rs) r_sk center helicity vorticity chirality =
     (case s_skyrmion r r_sk center helicity vorticity chirality of
        Inl e \<Rightarrow> Inl e
      | Inr s \<Rightarrow>
          (case s_skyrmion_v rs r_sk center helicity vorticity chirality of
             Inl e \<Rightarrow> Inl e
           | Inr ss \<Rightarrow> Inr (s # ss)))"

text \<open>
  \<^verbatim>\<open>
  def get_spins(coordinates, r_sk, center=(0, 0), helicity=0, vorticity=1, chirality=1):
      spin = s_skyrmion_v(coordinates, r_sk=r_sk, center=center, helicity=helicity,
                          vorticity=vorticity, chirality=chirality)
      spin_n = np.sqrt(spin[:, 0] ** 2 + spin[:, 1] ** 2 + spin[:, 2] ** 2)
      spin[spin_n > 0] /= spin_n[spin_n > 0][:, np.newaxis]
      return spin
  \<close>
  Only the rows whose norm is positive are divided by it.
\<close>

fun normalise_row :: "vec3 \<Rightarrow> vec3" where
  "normalise_row (sx, sy, sz) =
     (let spin_n = sqrt (sx ^ 2 + sy ^ 2 + sz ^ 2)
      in if spin_n > 0 then (sx / spin_n, sy / spin_n, sz / spin_n) else (sx, sy, sz))"

definition get_spins ::
  "vec3 list \<Rightarrow> real \<Rightarrow> vec2 \<Rightarrow> real \<Rightarrow> real \<Rightarrow> real \<Rightarrow> py_error + vec3 list" where
  "get_spins coordinates r_sk center helicity vorticity chirality =
     (case s_skyrmion_v coordinates r_sk center helicity vorticity chirality of
        Inl e \<Rightarrow> Inl e
      | Inr spin \<Rightarrow> Inr (map normalise_row spin))"

text \<open>
  The row that one step of the inner loop of \<open>init_coordinates\<close> stores for column \<open>i\<close>
  of row \<open>j\<close>, as a function of its own; the loop writes the same expression inline.
\<close>

definition lattice_r :: "real \<Rightarrow> real \<Rightarrow> real \<Rightarrow> int \<Rightarrow> int \<Rightarrow> vec3" where
  "lattice_r dx dy h i j =
     ((if j mod 2 = 0 then 1 else 0) * dx / 2 + of_int i * dx + dx / 2, of_int j * dy + h / 2, 0)"

text \<open>
  The row of the lattice for column \<open>i\<close> of row \<open>j\<close>, read the way the notebook reads
  it: \<open>init_coordinates(nx, ny, radius)[get_index(nx, ny, i, j)]\<close>.
\<close>

definition lattice_point :: "int \<Rightarrow> int \<Rightarrow> real \<Rightarrow> int \<Rightarrow> int \<Rightarrow> py_error + vec3" where
  "lattice_point nx ny radius i j =
     (case init_coordinates nx ny radius of
        Inl e \<Rightarrow> Inl e
      | Inr coordinates \<Rightarrow> getitem coordinates (get_index nx ny i j))"

text \<open>
  The hexagon that one step of the inner loop of \<open>init_corners\<close> appends for the row
  \<open>p\<close> it has read: \<open>hexagon_corners(p[0], p[1], h * 0.5)\<close>.
\<close>

definition hexagon_cell :: "real \<Rightarrow> vec3 \<Rightarrow> vec3 list" where
  "hexagon_cell h p = (case p of (x, y, z) \<Rightarrow> hexagon_corners x y (h * 0.5))"

section \<open>Index arithmetic\<close>

lemma index_bounds:
  fixes i j nx ny :: int
  assumes "0 \<le> i" "i < nx" "0 \<le> j" "j < ny"
  shows "0 \<le> i + j * nx" and "i + j * nx < nx * ny"
proof -
  have "0 \<le> j * nx" using assms by (intro mult_nonneg_nonneg) auto
  then show "0 \<le> i + j * nx" using assms by linarith
  have "j * nx \<le> (ny - 1) * nx"
    using assms by (intro mult_right_mono) auto
  then have "i + j * nx < nx + (ny - 1) * nx" using assms by linarith
  also have "\<dots> = nx * ny" by (simp add: algebra_simps)
  finally show "i + j * nx < nx * ny" .
qed

lemma index_div_mod:
  fixes i j nx :: int
  assumes "0 \<le> i" "i < nx"
  shows "(i + j * nx) mod nx = i" and "(i + j * nx) div nx = j"
proof -
  show "(i + j * nx) mod nx = i"
    using assms by (simp add: mod_pos_pos_trivial)
  have "nx \<noteq> 0" using assms by auto
  then show "(i + j * nx) div nx = j"
    using assms by (simp add: div_pos_pos_trivial)
qed

lemma div_less_rows:
  fixes k nx ny :: int
  assumes "0 < nx" "k < ny * nx"
  shows "k div nx < ny"
proof (rule ccontr)
  assume "\<not> k div nx < ny"
  then have "ny * nx \<le> (k div nx) * nx"
    using assms(1) by (intro mult_right_mono) auto
  moreover have "(k div nx) * nx + k mod nx = k" by simp
  moreover have "0 \<le> k mod nx" using assms(1) by simp
  ultimately show False using assms(2) by linarith
qed

lemma get_index_valid:
  "0 \<le> i \<Longrightarrow> i < nx \<Longrightarrow> 0 \<le> j \<Longrightarrow> j < ny \<Longrightarrow> get_index nx ny i j = i + j * nx"
  by (simp add: get_index_def)

lemma get_index_invalid:
  "\<not> (0 \<le> i \<and> i < nx \<and> 0 \<le> j \<and> j < ny) \<Longrightarrow> get_index nx ny i j = - 1"
  by (auto simp: get_index_def)

lemma get_index_inj:
  fixes i j i' j' nx :: int
  assumes "0 \<le> i" "i < nx" "0 \<le> i'" "i' < nx" "i + j * nx = i' + j' * nx"
  shows "i = i' \<and> j = j'"
proof -
  have "(i + j * nx) mod nx = i" "(i + j * nx) div nx = j"
    using index_div_mod [OF assms(1,2)] by simp_all
  moreover have "(i' + j' * nx) mod nx = i'" "(i' + j' * nx) div nx = j'"
    using index_div_mod [OF assms(3,4)] by simp_all
  ultimately show ?thesis using assms(5) by simp
qed

lemma get_index_bij:
  assumes "1 \<le> nx" "1 \<le> ny"
  shows "bij_betw (\<lambda>(i, j). get_index nx ny i j) ({0..<nx} \<times> {0..<ny}) {0..<nx * ny}"
  unfolding bij_betw_def
proof
  show "inj_on (\<lambda>(i, j). get_index nx ny i j) ({0..<nx} \<times> {0..<ny})"
  proof (rule inj_onI)
    fix p q
    assume p: "p \<in> {0..<nx} \<times> {0..<ny}" and q: "q \<in> {0..<nx} \<times> {0..<ny}"
      and eq: "(case p of (i, j) \<Rightarrow> get_index nx ny i j) = (case q of (i, j) \<Rightarrow> get_index nx ny i j)"
    obtain i j where pij: "p = (i, j)" by (cases p)
    obtain i' j' where qij: "q = (i', j')" by (cases q)
    from p q pij qij have r: "0 \<le> i" "i < nx" "0 \<le> j" "j < ny" "0 \<le> i'" "i' < nx" "0 \<le> j'" "j' < ny"
      by auto
    from eq have "i + j * nx = i' + j' * nx"
      unfolding pij qij using get_index_valid [OF r(1-4)] get_index_valid [OF r(5-8)] by simp
    from get_index_inj [OF r(1,2,5,6) this] show "p = q" by (simp add: pij qij)
  qed
next
  show "(\<lambda>(i, j). get_index nx ny i j) ` ({0..<nx} \<times> {0..<ny}) = {0..<nx * ny}"
  proof (intro equalityI subsetI)
    fix k assume "k \<in> (\<lambda>(i, j). get_index nx ny i j) ` ({0..<nx} \<times> {0..<ny})"
    then obtain i j where r: "0 \<le> i" "i < nx" "0 \<le> j" "j < ny" and k: "k = get_index nx ny i j"
      by auto
    from index_bounds [OF r] get_index_valid [OF r] k show "k \<in> {0..<nx * ny}" by simp
  next
    fix k assume "k \<in> {0..<nx * ny}"
    then have k: "0 \<le> k" "k < ny * nx" by (auto simp: mult.commute)
    have nx: "0 < nx" using assms by simp
    let ?i = "k mod nx" and ?j = "k div nx"
    have i: "0 \<le> ?i" "?i < nx" using nx by simp_all
    have j: "0 \<le> ?j" "?j < ny"
      using nx k(1) div_less_rows [OF nx k(2)] by (simp_all add: pos_imp_zdiv_nonneg_iff)
    have "get_index nx ny ?i ?j = k" using get_index_valid [OF i j] by simp
    moreover have "(?i, ?j) \<in> {0..<nx} \<times> {0..<ny}" using i j by simp
    ultimately show "k \<in> (\<lambda>(i, j). get_index nx ny i j) ` ({0..<nx} \<times> {0..<ny})"
      by (metis (mono_tags, lifting) image_eqI case_prod_conv)
  qed
qed

section \<open>What the loops of \<open>init_coordinates\<close> compute\<close>

lemma getitem_valid:
  "0 \<le> k \<Longrightarrow> k < int (length xs) \<Longrightarrow> getitem xs k = Inr (xs ! nat k)"
  by (simp add: getitem_def Let_def)

lemma setitem_valid:
  "0 \<le> k \<Longrightarrow> k < int (length xs) \<Longrightarrow> setitem xs k v = Inr (xs[nat k := v])"
  by (simp add: setitem_def Let_def)

lemma init_coordinates_i_nth:
  assumes "length cs = nat (nx * ny)" "0 \<le> j" "j < ny" "\<forall>i\<in>set irest. 0 \<le> i \<and> i < nx"
  shows "\<exists>cs'. init_coordinates_i nx ny dx dy h j irest cs = Inr cs' \<and> length cs' = length cs \<and>
           (\<forall>k<length cs. cs' ! k =
              (if \<exists>i\<in>set irest. k = nat (i + j * nx)
               then lattice_r dx dy h (int k mod nx) (int k div nx) else cs ! k))"
  using assms
proof (induction irest arbitrary: cs)
  case Nil
  then show ?case by simp
next
  case (Cons i irest)
  let ?idx = "i + j * nx"
  let ?r = "lattice_r dx dy h i j"
  have i: "0 \<le> i" "i < nx" using Cons.prems(4) by auto
  note b = index_bounds [OF i Cons.prems(2,3)]
  have len: "?idx < int (length cs)" using b Cons.prems(1) by simp
  have step: "init_coordinates_i nx ny dx dy h j (i # irest) cs =
                init_coordinates_i nx ny dx dy h j irest (cs[nat ?idx := ?r])"
    using get_index_valid [OF i Cons.prems(2,3)] setitem_valid [OF b(1) len]
    by (simp add: Let_def lattice_r_def)
  have "length (cs[nat ?idx := ?r]) = nat (nx * ny)" using Cons.prems(1) by simp
  from Cons.IH [OF this Cons.prems(2,3)] Cons.prems(4)
  obtain cs' where cs': "init_coordinates_i nx ny dx dy h j irest (cs[nat ?idx := ?r]) = Inr cs'"
    "length cs' = length cs"
    "\<forall>k<length cs. cs' ! k =
        (if \<exists>i\<in>set irest. k = nat (i + j * nx)
         then lattice_r dx dy h (int k mod nx) (int k div nx) else (cs[nat ?idx := ?r]) ! k)"
    by auto
  have "cs' ! k = (if \<exists>i'\<in>set (i # irest). k = nat (i' + j * nx)
               then lattice_r dx dy h (int k mod nx) (int k div nx) else cs ! k)"
    if k: "k < length cs" for k
  proof (cases "k = nat ?idx")
    case True
    then have "int k = ?idx" using b(1) by simp
    then have "int k mod nx = i" "int k div nx = j" using index_div_mod [OF i] by simp_all
    then show ?thesis using cs'(3) k True by auto
  next
    case False
    then show ?thesis using cs'(3) k by auto
  qed
  then show ?case using step cs'(1,2) by simp
qed

lemma init_coordinates_j_nth:
  assumes "length cs = nat (nx * ny)" "\<forall>j\<in>set jrest. 0 \<le> j \<and> j < ny"
  shows "\<exists>cs'. init_coordinates_j nx ny dx dy h jrest cs = Inr cs' \<and> length cs' = length cs \<and>
           (\<forall>k<length cs. cs' ! k =
              (if \<exists>j\<in>set jrest. \<exists>i\<in>set [0..nx - 1]. k = nat (i + j * nx)
               then lattice_r dx dy h (int k mod nx) (int k div nx) else cs ! k))"
  using assms
proof (induction jrest arbitrary: cs)
  case Nil
  then show ?case by simp
next
  case (Cons j jrest)
  have j: "0 \<le> j" "j < ny" using Cons.prems(2) by auto
  have "\<forall>i\<in>set [0..nx - 1]. 0 \<le> i \<and> i < nx" by simp
  from init_coordinates_i_nth [OF Cons.prems(1) j this]
  obtain cs1 where cs1: "init_coordinates_i nx ny dx dy h j [0..nx - 1] cs = Inr cs1"
    "length cs1 = length cs"
    "\<forall>k<length cs. cs1 ! k =
        (if \<exists>i\<in>set [0..nx - 1]. k = nat (i + j * nx)
         then lattice_r dx dy h (int k mod nx) (int k div nx) else cs ! k)"
    by blast
  have "length cs1 = nat (nx * ny)" using cs1(2) Cons.prems(1) by simp
  from Cons.IH [OF this] Cons.prems(2)
  obtain cs' where cs': "init_coordinates_j nx ny dx dy h jrest cs1 = Inr cs'"
    "length cs' = length cs1"
    "\<forall>k<length cs1. cs' ! k =
        (if \<exists>j\<in>set jrest. \<exists>i\<in>set [0..nx - 1]. k = nat (i + j * nx)
         then lattice_r dx dy h (int k mod nx) (int k div nx) else cs1 ! k)"
    by auto
  have "cs' ! k = (if \<exists>j'\<in>set (j # jrest). \<exists>i\<in>set [0..nx - 1]. k = nat (i + j' * nx)
               then lattice_r dx dy h (int k mod nx) (int k div nx) else cs ! k)"
    if k: "k < length cs" for k
    using cs'(3) cs1(2,3) k by auto
  then show ?case using cs1(1,2) cs'(1,2) by simp
qed

lemma init_coordinates_result:
  assumes "0 \<le> nx * ny"
  shows "\<exists>cs. init_coordinates nx ny radius = Inr cs \<and> length cs = nat (nx * ny) \<and>
           (\<forall>k<nat (nx * ny). cs ! k =
              (if 0 < ny
               then lattice_r (2 * radius) (sqrt 3 * radius) (2 * radius * 2 / sqrt 3)
                      (int k mod nx) (int k div nx)
               else (0, 0, 0)))"
proof -
  let ?dx = "2 * radius" and ?dy = "sqrt 3 * radius" and ?h = "2 * radius * 2 / sqrt 3"
  let ?z = "replicate (nat (nx * ny)) (0, 0, 0) :: vec3 list"
  have eq: "init_coordinates nx ny radius = init_coordinates_j nx ny ?dx ?dy ?h [0..ny - 1] ?z"
    using assms by (simp add: init_coordinates_def Let_def)
  have "length ?z = nat (nx * ny)" by simp
  moreover have "\<forall>j\<in>set [0..ny - 1]. 0 \<le> j \<and> j < ny" by simp
  ultimately obtain cs where cs: "init_coordinates_j nx ny ?dx ?dy ?h [0..ny - 1] ?z = Inr cs"
    "length cs = length ?z"
    "\<forall>k<length ?z. cs ! k =
        (if \<exists>j\<in>set [0..ny - 1]. \<exists>i\<in>set [0..nx - 1]. k = nat (i + j * nx)
         then lattice_r ?dx ?dy ?h (int k mod nx) (int k div nx) else ?z ! k)"
    using init_coordinates_j_nth [of ?z nx ny "[0..ny - 1]" ?dx ?dy ?h] by blast
  have "cs ! k = (if 0 < ny then lattice_r ?dx ?dy ?h (int k mod nx) (int k div nx) else (0, 0, 0))"
    if k: "k < nat (nx * ny)" for k
  proof (cases "0 < ny")
    case False
    then have "\<not> (\<exists>j\<in>set [0..ny - 1]. \<exists>i\<in>set [0..nx - 1]. k = nat (i + j * nx))" by simp
    then show ?thesis using cs(3) k False by simp
  next
    case True
    from k have pos: "0 < nx * ny" by simp
    with True have nx: "0 < nx" by (simp add: zero_less_mult_iff)
    let ?i = "int k mod nx" and ?j = "int k div nx"
    have i: "0 \<le> ?i" "?i < nx" using nx by simp_all
    have j0: "0 \<le> ?j" using nx by (simp add: pos_imp_zdiv_nonneg_iff)
    have "int k < ny * nx" using k by (simp add: mult.commute)
    then have j1: "?j < ny" using nx by (intro div_less_rows)
    have "k = nat (?i + ?j * nx)" by simp
    then have "\<exists>j\<in>set [0..ny - 1]. \<exists>i\<in>set [0..nx - 1]. k = nat (i + j * nx)"
      using i j0 j1 by (intro bexI [of _ ?j] bexI [of _ ?i]) auto
    then show ?thesis using cs(3) k True by simp
  qed
  then show ?thesis using eq cs(1,2) by simp
qed

lemma lattice_point_valid:
  assumes "0 \<le> i" "i < nx" "0 \<le> j" "j < ny"
  shows "lattice_point nx ny radius i j =
           Inr (lattice_r (2 * radius) (sqrt 3 * radius) (2 * radius * 2 / sqrt 3) i j)"
proof -
  note b = index_bounds [OF assms]
  have n: "0 \<le> nx * ny" using b by linarith
  from init_coordinates_result [OF n, of radius] obtain cs where
    cs: "init_coordinates nx ny radius = Inr cs" "length cs = nat (nx * ny)"
    "\<forall>k<nat (nx * ny). cs ! k =
        (if 0 < ny
         then lattice_r (2 * radius) (sqrt 3 * radius) (2 * radius * 2 / sqrt 3)
                (int k mod nx) (int k div nx)
         else (0, 0, 0))"
    by blast
  let ?k = "nat (i + j * nx)"
  have k: "?k < nat (nx * ny)" using b by simp
  have ik: "int ?k = i + j * nx" using b by simp
  have ny: "0 < ny" using assms by simp
  have "cs ! ?k = lattice_r (2 * radius) (sqrt 3 * radius) (2 * radius * 2 / sqrt 3)
                    (int ?k mod nx) (int ?k div nx)"
    using cs(3) [rule_format, OF k] ny by (simp only: if_True)
  then have "cs ! ?k = lattice_r (2 * radius) (sqrt 3 * radius) (2 * radius * 2 / sqrt 3) i j"
    unfolding ik index_div_mod [OF assms(1,2)] .
  moreover have "getitem cs (i + j * nx) = Inr (cs ! ?k)"
    using b cs(2) by (intro getitem_valid) simp_all
  ultimately show ?thesis
    unfolding lattice_point_def cs(1) get_index_valid [OF assms] by simp
qed

section \<open>What the loops of \<open>init_corners\<close> compute\<close>

text \<open>
  When the module-level array \<open>c\<close> has \<open>nx * ny\<close> rows, the two loops visit its rows
  in order, and the result is one hexagon per row of \<open>c\<close>, whatever was passed as
  \<open>coordinates\<close>.
\<close>

lemma init_corners_i_append:
  assumes "0 \<le> j" "j < ny" "nat (nx * ny) \<le> length c" "\<forall>i\<in>set irest. 0 \<le> i \<and> i < nx"
  shows "init_corners_i c nx ny h j irest corners =
           Inr (corners @ map (\<lambda>i. hexagon_cell h (c ! nat (i + j * nx))) irest)"
  using assms(4)
proof (induction irest arbitrary: corners)
  case Nil
  then show ?case by simp
next
  case (Cons i irest)
  have i: "0 \<le> i" "i < nx" using Cons.prems by auto
  note b = index_bounds [OF i assms(1,2)]
  have "i + j * nx < int (length c)" using b assms(3) by linarith
  from getitem_valid [OF b(1) this]
  have g: "getitem c (get_index nx ny i j) = Inr (c ! nat (i + j * nx))"
    using get_index_valid [OF i assms(1,2)] by simp
  obtain x y z where p: "c ! nat (i + j * nx) = (x, y, z)" by (cases "c ! nat (i + j * nx)")
  have "init_corners_i c nx ny h j (i # irest) corners =
          init_corners_i c nx ny h j irest (corners @ [hexagon_cell h (c ! nat (i + j * nx))])"
    by (simp add: g p hexagon_cell_def)
  also have "\<dots> = Inr ((corners @ [hexagon_cell h (c ! nat (i + j * nx))]) @
                       map (\<lambda>i. hexagon_cell h (c ! nat (i + j * nx))) irest)"
    using Cons.prems by (intro Cons.IH) simp
  finally show ?case by simp
qed

lemma init_corners_j_append:
  assumes "nat (nx * ny) \<le> length c" "\<forall>j\<in>set jrest. 0 \<le> j \<and> j < ny"
  shows "init_corners_j c nx ny h jrest corners =
           Inr (corners @ concat (map (\<lambda>j. map (\<lambda>i. hexagon_cell h (c ! nat (i + j * nx))) [0..nx - 1]) jrest))"
  using assms(2)
proof (induction jrest arbitrary: corners)
  case Nil
  then show ?case by simp
next
  case (Cons j jrest)
  have j: "0 \<le> j" "j < ny" using Cons.prems by auto
  have "\<forall>i\<in>set [0..nx - 1]. 0 \<le> i \<and> i < nx" by simp
  from init_corners_i_append [OF j assms(1) this, of h corners]
  have "init_corners_j c nx ny h (j # jrest) corners =
          init_corners_j c nx ny h jrest
            (corners @ map (\<lambda>i. hexagon_cell h (c ! nat (i + j * nx))) [0..nx - 1])"
    by simp
  also have "\<dots> = Inr ((corners @ map (\<lambda>i. hexagon_cell h (c ! nat (i + j * nx))) [0..nx - 1]) @
       concat (map (\<lambda>j. map (\<lambda>i. hexagon_cell h (c ! nat (i + j * nx))) [0..nx - 1]) jrest))"
    using Cons.prems by (intro Cons.IH) simp
  finally show ?case by simp
qed

lemma row_slice:
  assumes "0 \<le> nx"
  shows "map (\<lambda>i. f (nat (i + int m * nx))) [0..nx - 1] = map f [nat nx * m..<nat nx * m + nat nx]"
proof (rule nth_equalityI)
  show "length (map (\<lambda>i. f (nat (i + int m * nx))) [0..nx - 1]) =
        length (map f [nat nx * m..<nat nx * m + nat nx])"
    using assms by simp
next
  fix k assume "k < length (map (\<lambda>i. f (nat (i + int m * nx))) [0..nx - 1])"
  then have k: "k < nat nx" using assms by simp
  then have "[0..nx - 1] ! k = int k" using nth_upto [of 0 k "nx - 1"] by simp
  moreover have "nat (int k + int m * nx) = nat nx * m + k"
    using assms by (simp add: nat_add_distrib nat_mult_distrib mult.commute)
  ultimately show "map (\<lambda>i. f (nat (i + int m * nx))) [0..nx - 1] ! k =
                   map f [nat nx * m..<nat nx * m + nat nx] ! k"
    using k assms by simp
qed

lemma rows_flatten:
  assumes "0 \<le> nx"
  shows "concat (map (\<lambda>j. map (\<lambda>i. f (nat (i + j * nx))) [0..nx - 1]) [0..int m - 1]) =
           map f [0..<nat nx * m]"
proof (induction m)
  case 0
  then show ?case by simp
next
  case (Suc m)
  have "[0..int (Suc m) - 1] = [0..int m - 1] @ [int m]"
    using upto_rec2 [of 0 "int m"] by simp
  then have "concat (map (\<lambda>j. map (\<lambda>i. f (nat (i + j * nx))) [0..nx - 1]) [0..int (Suc m) - 1]) =
        map f [0..<nat nx * m] @ map (\<lambda>i. f (nat (i + int m * nx))) [0..nx - 1]"
    using Suc.IH by simp
  also have "\<dots> = map f ([0..<nat nx * m] @ [nat nx * m..<nat nx * m + nat nx])"
    using row_slice [OF assms, of f m] by simp
  also have "[0..<nat nx * m] @ [nat nx * m..<nat nx * m + nat nx] = [0..<nat nx * m + nat nx]"
    by (rule upt_add_eq_append [symmetric]) simp
  also have "nat nx * m + nat nx = nat nx * Suc m" by simp
  finally show ?case .
qed

lemma init_corners_result:
  assumes "1 \<le> nx" "1 \<le> ny" "length c = nat (nx * ny)"
  shows "init_corners c coordinates nx ny radius =
           Inr (map (\<lambda>p. map (\<lambda>(x, y, z). (x, y)) (hexagon_cell (2 * radius * 2 / sqrt 3) p)) c)"
proof -
  let ?h = "2 * radius * 2 / sqrt 3"
  have nx: "0 \<le> nx" using assms by simp
  have ny: "int (nat ny) = ny" using assms by simp
  have len: "length c = nat nx * nat ny" using assms by (simp add: nat_mult_distrib)
  have "nat (nx * ny) \<le> length c" using assms by simp
  moreover have "\<forall>j\<in>set [0..ny - 1]. 0 \<le> j \<and> j < ny" by simp
  ultimately have "init_corners_j c nx ny ?h [0..ny - 1] [] =
      Inr ([] @ concat (map (\<lambda>j. map (\<lambda>i. hexagon_cell ?h (c ! nat (i + j * nx))) [0..nx - 1]) [0..ny - 1]))"
    by (rule init_corners_j_append)
  also have "concat (map (\<lambda>j. map (\<lambda>i. hexagon_cell ?h (c ! nat (i + j * nx))) [0..nx - 1]) [0..ny - 1]) =
      map (\<lambda>k. hexagon_cell ?h (c ! k)) [0..<nat nx * nat ny]"
    using rows_flatten [OF nx, of "\<lambda>k. hexagon_cell ?h (c ! k)" "nat ny"] unfolding ny .
  also have "\<dots> = map (hexagon_cell ?h) c"
    unfolding len [symmetric] by (rule nth_equalityI) simp_all
  finally have j: "init_corners_j c nx ny ?h [0..ny - 1] [] = Inr (map (hexagon_cell ?h) c)" by simp
  have "c \<noteq> []" using assms len by (auto simp: nat_mult_distrib)
  then show ?thesis
    unfolding init_corners_def Let_def j by simp
qed

section \<open>Properties of the spin field\<close>

lemma unit_sphere_algebra:
  "(c * s * cp) ^ 2 + (c * s * sp) ^ 2 + (- c * ct) ^ 2 =
     c ^ 2 * (s ^ 2 * (cp ^ 2 + sp ^ 2) + ct ^ 2)" for c :: real
  by (simp add: power2_eq_square algebra_simps)

lemma s_skyrmion_raw_norm:
  assumes "chirality = 1 \<or> chirality = - 1"
  shows "(chirality * sin t * cos p) ^ 2 + (chirality * sin t * sin p) ^ 2 + (- chirality * cos t) ^ 2 = (1::real)"
proof -
  have c: "chirality ^ 2 = 1" using assms by auto
  show ?thesis
    unfolding unit_sphere_algebra by (simp add: c)
qed

lemma s_skyrmion_returns:
  "r_sk \<noteq> 0 \<Longrightarrow> \<exists>s. s_skyrmion r r_sk center helicity vorticity chirality = Inr s"
  by (simp add: s_skyrmion_def Let_def)

lemma s_skyrmion_norm:
  assumes "chirality = 1 \<or> chirality = - 1"
    and "s_skyrmion r r_sk center helicity vorticity chirality = Inr s"
  shows "norm3 s = 1"
proof (cases "r_sk = 0")
  case True
  with assms(2) show ?thesis by (simp add: s_skyrmion_def Let_def)
next
  case False
  with assms(2) show ?thesis
    using s_skyrmion_raw_norm [OF assms(1)] assms(1)
    by (auto simp: s_skyrmion_def Let_def split: if_splits)
qed

lemma normalise_row_unit: "norm3 s = 1 \<Longrightarrow> normalise_row s = s"
  by (cases s) (simp add: Let_def)

lemma s_skyrmion_v_rows:
  "r_sk \<noteq> 0 \<Longrightarrow> chirality = 1 \<or> chirality = - 1 \<Longrightarrow>
   \<exists>spin. s_skyrmion_v rs r_sk center helicity vorticity chirality = Inr spin
      \<and> length spin = length rs \<and> (\<forall>s\<in>set spin. norm3 s = 1)"
proof (induction rs)
  case Nil
  then show ?case by simp
next
  case (Cons r rs)
  from Cons obtain spin where sp: "s_skyrmion_v rs r_sk center helicity vorticity chirality = Inr spin"
    "length spin = length rs" "\<forall>s\<in>set spin. norm3 s = 1" by blast
  from s_skyrmion_returns [OF Cons.prems(1)] obtain s where
    s: "s_skyrmion r r_sk center helicity vorticity chirality = Inr s" by blast
  have "norm3 s = 1" using s_skyrmion_norm [OF Cons.prems(2) s] .
  with sp s show ?case by simp
qed

section \<open>The lattice claims\<close>

text \<open>
  C7. For \<open>nx \<ge> 1\<close>, \<open>ny \<ge> 1\<close> and \<open>radius > 0\<close>, the point of \<open>init_coordinates\<close> for
  column \<open>i\<close> of row \<open>j\<close> is stored at the index \<open>i + j * nx\<close> and has
  \<open>x = offset + i * dx + dx / 2\<close> and \<open>y = j * dy + h / 2\<close> (and \<open>z = 0\<close>), where
  \<open>dx = 2 * radius\<close>, \<open>dy = sqrt 3 * radius\<close>, \<open>h = dx * 2 / sqrt 3\<close> and \<open>offset\<close> is
  \<open>dx / 2\<close> for an even \<open>j\<close> and \<open>0\<close> for an odd one.
\<close>

theorem init_coordinates_point:
  assumes "1 \<le> nx" "1 \<le> ny" "0 < radius" "0 \<le> i" "i < nx" "0 \<le> j" "j < ny"
  shows "let dx = 2 * radius; dy = sqrt 3 * radius; h = dx * 2 / sqrt 3;
             offset = (if even j then dx / 2 else 0)
         in get_index nx ny i j = i + j * nx \<and>
            lattice_point nx ny radius i j =
              Inr (offset + of_int i * dx + dx / 2, of_int j * dy + h / 2, 0)"
  using lattice_point_valid [OF assms(4-7), of radius] get_index_valid [OF assms(4-7)]
  by (simp add: Let_def lattice_r_def even_iff_mod_2_eq_zero)

text \<open>
  The instance of C7 for the \<open>2 \<times> 2\<close> lattice of radius \<open>1\<close> at column \<open>1\<close> of row
  \<open>1\<close>: index \<open>3\<close>, point \<open>(3, sqrt 3 + 2 / sqrt 3, 0)\<close>.
\<close>

theorem init_coordinates_point_witness:
  "(1::int) \<le> 2 \<and> (0::real) < 1 \<and>
   get_index 2 2 1 1 = 3 \<and> lattice_point 2 2 1 1 1 = Inr (3, sqrt 3 + 2 / sqrt 3, 0)"
  using init_coordinates_point [of 2 2 1 1 1] by (simp add: Let_def)

text \<open>
  C6, as stated, asks that the points of an odd row lie \<open>dx / 2\<close> to the right of the
  points of an even row. In the \<open>1 \<times> 2\<close> lattice of radius \<open>1\<close> (\<open>dx = 2\<close>) the point of
  row \<open>0\<close> has \<open>x = 2\<close> and the point of row \<open>1\<close> has \<open>x = 1\<close>, which is not \<open>2 + dx / 2\<close>.
\<close>

theorem odd_row_offset_counterexample:
  "lattice_point 1 2 1 0 0 = Inr (2, 2 / sqrt 3, 0) \<and>
   lattice_point 1 2 1 0 1 = Inr (1, sqrt 3 + 2 / sqrt 3, 0) \<and>
   (1 :: real) \<noteq> 2 + 2 * 1 / 2"
  by (simp add: lattice_point_valid lattice_r_def)

text \<open>
  C6, amended. The loop sets \<open>sign = 1\<close> for \<open>j % 2 == 0\<close>: it is the even rows that are
  shifted. In every column \<open>i\<close>, the point of an even row \<open>j\<close> has its \<open>x\<close> coordinate
  \<open>dx / 2\<close> above the one of the point of an odd row \<open>j'\<close>, with \<open>dx = 2 * radius\<close>.
\<close>

theorem init_coordinates_even_row_offset:
  assumes "1 \<le> nx" "1 \<le> ny" "0 \<le> i" "i < nx"
    and "0 \<le> j" "j < ny" "even j" and "0 \<le> j'" "j' < ny" "odd j'"
  shows "\<exists>p p'. lattice_point nx ny radius i j = Inr p \<and> lattice_point nx ny radius i j' = Inr p'
           \<and> fst p = fst p' + 2 * radius / 2"
  using lattice_point_valid [OF assms(3-6), of radius] lattice_point_valid [OF assms(3,4,8,9), of radius]
    assms(7,10)
  by (simp add: lattice_r_def even_iff_mod_2_eq_zero)

text \<open>The amended C6 on the \<open>1 \<times> 2\<close> lattice of radius \<open>1\<close>, rows \<open>0\<close> and \<open>1\<close>.\<close>

theorem init_coordinates_even_row_offset_witness:
  "\<exists>p p'. lattice_point 1 2 1 0 0 = Inr p \<and> lattice_point 1 2 1 0 1 = Inr p'
           \<and> fst p = fst p' + 2 * 1 / 2"
  using init_coordinates_even_row_offset [of 1 2 0 0 1 1] by simp

text \<open>
  C4, as stated, asks for an error whenever \<open>nx < 1\<close>, \<open>ny < 1\<close> or \<open>radius \<le> 0\<close>. The
  function checks none of its arguments: with \<open>radius = 0\<close> it returns the one point
  \<open>(0, 0, 0)\<close>, with \<open>nx = 0\<close> or \<open>ny = 0\<close> the empty array.
\<close>

theorem init_coordinates_invalid_argument_counterexample:
  "init_coordinates 1 1 0 = Inr [(0, 0, 0)] \<and> init_coordinates 0 1 1 = Inr [] \<and>
   init_coordinates 1 0 1 = Inr []"
  by (simp add: init_coordinates_def Let_def get_index_def setitem_def)

text \<open>
  C4, amended. \<open>init_coordinates\<close> returns an array of \<open>nx * ny\<close> rows for every radius
  whenever \<open>nx * ny\<close> is not negative, so for all \<open>nx \<ge> 1\<close> and \<open>ny \<ge> 1\<close> and also when
  one of them is \<open>0\<close>; it fails only when \<open>nx * ny\<close> is negative, with the \<open>ValueError\<close> of
  the allocation.
\<close>

theorem init_coordinates_no_check:
  "(nx * ny < 0 \<longrightarrow> init_coordinates nx ny radius = Inl ValueError) \<and>
   (0 \<le> nx * ny \<longrightarrow> (\<exists>cs. init_coordinates nx ny radius = Inr cs \<and> length cs = nat (nx * ny)))"
  using init_coordinates_result [of nx ny radius]
  by (auto simp: init_coordinates_def Let_def)

text \<open>The amended C4 at \<open>(nx, ny, radius) = (-1, 1, 1)\<close> and at \<open>(1, 1, 0)\<close>.\<close>

theorem init_coordinates_no_check_witness:
  "init_coordinates (- 1) 1 1 = Inl ValueError \<and>
   (\<exists>cs. init_coordinates 1 1 0 = Inr cs \<and> length cs = nat (1 * 1))"
  using init_coordinates_no_check [of "- 1" 1 1] init_coordinates_no_check [of 1 1 0] by simp

text \<open>
  C8. For \<open>nx \<ge> 1\<close> and \<open>ny \<ge> 1\<close>, \<open>get_index\<close> is a bijection from the pairs \<open>(i, j)\<close>
  with \<open>0 \<le> i < nx\<close> and \<open>0 \<le> j < ny\<close> onto \<open>[0, nx * ny)\<close>, with value \<open>i + j * nx\<close>;
  every other pair gets \<open>-1\<close>; and \<open>init_coordinates\<close> returns \<open>nx * ny\<close> points.
\<close>

theorem get_index_bijection:
  assumes "1 \<le> nx" "1 \<le> ny"
  shows "bij_betw (\<lambda>(i, j). get_index nx ny i j) ({0..<nx} \<times> {0..<ny}) {0..<nx * ny} \<and>
         (\<forall>i j. 0 \<le> i \<and> i < nx \<and> 0 \<le> j \<and> j < ny \<longrightarrow> get_index nx ny i j = i + j * nx) \<and>
         (\<forall>i j. \<not> (0 \<le> i \<and> i < nx \<and> 0 \<le> j \<and> j < ny) \<longrightarrow> get_index nx ny i j = - 1) \<and>
         (\<exists>cs. init_coordinates nx ny radius = Inr cs \<and> length cs = nat (nx * ny))"
proof -
  have "0 \<le> nx * ny" using assms by simp
  from init_coordinates_result [OF this, of radius]
  have "\<exists>cs. init_coordinates nx ny radius = Inr cs \<and> length cs = nat (nx * ny)" by blast
  then show ?thesis
    using get_index_bij [OF assms] get_index_invalid [of _ nx _ ny] get_index_valid [of _ nx _ ny]
    by blast
qed

text \<open>C8 on the \<open>2 \<times> 3\<close> grid, radius \<open>1\<close>.\<close>

theorem get_index_bijection_witness:
  "bij_betw (\<lambda>(i, j). get_index 2 3 i j) ({0..<2} \<times> {0..<3}) {0..<2 * 3} \<and>
   get_index 2 3 1 2 = 1 + 2 * 2 \<and> get_index 2 3 2 0 = - 1 \<and>
   (\<exists>cs. init_coordinates 2 3 1 = Inr cs \<and> length cs = nat (2 * 3))"
proof -
  have h: "(1::int) \<le> 2" "(1::int) \<le> 3" by simp_all
  note t = get_index_bijection [OF h, of 1]
  from t have "get_index 2 3 1 2 = 1 + 2 * 2"
    by (elim conjE allE [of _ 1] allE [of _ 2]) simp
  moreover from t have "get_index 2 3 2 0 = - 1"
    by (elim conjE allE [of _ 2] allE [of _ 0]) simp
  ultimately show ?thesis using t by blast
qed

section \<open>The cell claims\<close>

text \<open>
  C10. The result of \<open>init_corners\<close> does not depend on its parameter \<open>coordinates\<close>:
  with the same module-level array \<open>c\<close> and the same \<open>nx\<close>, \<open>ny\<close> and \<open>radius\<close>, any two
  arrays passed as \<open>coordinates\<close> give the same result, an error included.
\<close>

theorem init_corners_ignores_coordinates:
  "init_corners c coordinates nx ny radius = init_corners c coordinates' nx ny radius"
  by (simp add: init_corners_def)

text \<open>
  C5 asks for the cell at each index to be centred at the point of the lattice that was
  passed in. With the module-level \<open>c\<close> bound to \<open>init_coordinates(1, 1, 1)\<close>, that is
  \<open>[(2, 2 / sqrt 3, 0)]\<close>, the call \<open>init_corners([(10, 10, 0)], 1, 1, 1)\<close> returns the
  hexagon around \<open>(2, 2 / sqrt 3)\<close>, which is not the hexagon around \<open>(10, 10)\<close>.
\<close>

theorem init_corners_reads_global:
  "init_corners [(2, 2 / sqrt 3, 0)] [(10, 10, 0)] 1 1 1 =
     Inr [map (\<lambda>(x, y, z). (x, y)) (hexagon_corners 2 (2 / sqrt 3) (2 / sqrt 3))] \<and>
   map (\<lambda>(x, y, z). (x, y)) (hexagon_corners 2 (2 / sqrt 3) (2 / sqrt 3)) \<noteq>
   map (\<lambda>(x, y, z). (x, y)) (hexagon_corners 10 10 (2 / sqrt 3))"
  by (simp add: init_corners_def Let_def get_index_def getitem_def hexagon_corners_def)

section \<open>The spin field claims\<close>

text \<open>
  C1. For every lattice and every parameter set with \<open>r_sk > 0\<close> and a chirality of \<open>1\<close>
  or \<open>-1\<close> (any centre, helicity and vorticity), \<open>get_spins\<close> returns one spin per
  lattice point, and every spin it returns has Euclidean norm \<open>1\<close>.
\<close>

theorem get_spins_unit_norm:
  assumes "0 < r_sk" and "chirality = 1 \<or> chirality = - 1"
  shows "\<exists>spin. get_spins coordinates r_sk center helicity vorticity chirality = Inr spin
           \<and> length spin = length coordinates \<and> (\<forall>s\<in>set spin. norm3 s = 1)"
proof -
  from assms(1) have nz: "r_sk \<noteq> 0" by simp
  from s_skyrmion_v_rows [OF nz assms(2)] obtain spin where
    sp: "s_skyrmion_v coordinates r_sk center helicity vorticity chirality = Inr spin"
    "length spin = length coordinates" "\<forall>s\<in>set spin. norm3 s = 1" by blast
  have "map normalise_row spin = spin"
    using sp(3) by (simp add: map_idI normalise_row_unit)
  with sp show ?thesis by (simp add: get_spins_def)
qed

text \<open>
  C1 on a lattice of two points, the centre of a skyrmion of radius \<open>2\<close> and a point at
  distance \<open>3\<close> from it.
\<close>

theorem get_spins_unit_norm_witness:
  "\<exists>spin. get_spins [(0, 0, 0), (3, 0, 0)] 2 (0, 0) 0 1 1 = Inr spin
      \<and> length spin = 2 \<and> norm3 (spin ! 0) = 1 \<and> norm3 (spin ! 1) = 1"
proof -
  from get_spins_unit_norm [of 2 1 "[(0, 0, 0), (3, 0, 0)]" "(0, 0)" 0 1]
  obtain spin where sp: "get_spins [(0, 0, 0), (3, 0, 0)] 2 (0, 0) 0 1 1 = Inr spin"
    "length spin = 2" "\<forall>s\<in>set spin. norm3 s = 1"
    by auto
  from sp(2) have "spin ! 0 \<in> set spin" "spin ! 1 \<in> set spin" by simp_all
  with sp show ?thesis by blast
qed

text \<open>
  C2. At a position whose distance \<open>rho\<close> from the centre is greater than \<open>r_sk\<close>,
  \<open>s_skyrmion\<close> returns \<open>(0, 0, chirality)\<close>, for every helicity, vorticity and chirality.
  The radius has to be different from \<open>0\<close> for the call to return at all.
\<close>

theorem s_skyrmion_outside:
  assumes "r_sk \<noteq> 0" and "r_sk < sqrt ((rx - cx) ^ 2 + (ry - cy) ^ 2)"
  shows "s_skyrmion (rx, ry, rz) r_sk (cx, cy) helicity vorticity chirality = Inr (0, 0, chirality)"
  using assms by (simp add: s_skyrmion_def Let_def)

text \<open>C2 at the position \<open>(4, 5, 0)\<close>, at distance \<open>5\<close> from the centre \<open>(1, 1)\<close>, radius \<open>2\<close>.\<close>

theorem s_skyrmion_outside_witness:
  "(2 :: real) \<noteq> 0 \<and> 2 < sqrt ((4 - 1) ^ 2 + (5 - 1) ^ 2 :: real) \<and>
   s_skyrmion (4, 5, 0) 2 (1, 1) (pi / 2) (- 1) 1 = Inr (0, 0, 1)"
proof -
  have rho: "sqrt ((4 - 1) ^ 2 + (5 - 1) ^ 2 :: real) = 5"
    by (simp add: real_sqrt_unique)
  show ?thesis
    using s_skyrmion_outside [of 2 4 1 5 1 0 "pi / 2" "- 1" 1] by (simp add: rho)
qed

text \<open>
  C3. At the centre of the skyrmion (\<open>rho = 0\<close>) and for \<open>r_sk > 0\<close>, \<open>s_skyrmion\<close> returns
  \<open>(0, 0, -chirality)\<close>, whatever the helicity and the vorticity.
\<close>

theorem s_skyrmion_center:
  assumes "0 < r_sk"
  shows "s_skyrmion (cx, cy, rz) r_sk (cx, cy) helicity vorticity chirality = Inr (0, 0, - chirality)"
  using assms by (simp add: s_skyrmion_def Let_def)

text \<open>C3 at the centre \<open>(1, 2)\<close> with radius \<open>14\<close>, helicity \<open>pi / 2\<close> and vorticity \<open>-1\<close>.\<close>

theorem s_skyrmion_center_witness:
  "(0 :: real) < 14 \<and> s_skyrmion (1, 2, 0) 14 (1, 2) (pi / 2) (- 1) 1 = Inr (0, 0, - 1)"
  using s_skyrmion_center [of 14 1 2 0 "pi / 2" "- 1" 1] by simp

text \<open>
  C9. For every position, centre, helicity and vorticity and every \<open>r_sk\<close> other than \<open>0\<close>,
  \<open>s_skyrmion\<close> returns a vector for chirality \<open>1\<close>, and the vector it returns for
  chirality \<open>-1\<close> is its negation, component by component.
\<close>

theorem s_skyrmion_chirality_flip:
  assumes "r_sk \<noteq> 0"
  shows "\<exists>s. s_skyrmion r r_sk center helicity vorticity 1 = Inr s \<and>
              s_skyrmion r r_sk center helicity vorticity (- 1) = Inr (neg3 s)"
  using assms by (simp add: s_skyrmion_def Let_def)

text \<open>
  C9 at the position of the specification's second scenario: one unit to the right of
  the centre, radius \<open>2\<close>, helicity \<open>pi / 2\<close>, vorticity \<open>1\<close>, where the spin is \<open>(0, 1, 0)\<close>.
\<close>

theorem s_skyrmion_chirality_flip_witness:
  "s_skyrmion (1, 0, 0) 2 (0, 0) (pi / 2) 1 1 = Inr (0, 1, 0) \<and>
   s_skyrmion (1, 0, 0) 2 (0, 0) (pi / 2) 1 (- 1) = Inr (neg3 (0, 1, 0))"
  using s_skyrmion_chirality_flip [of 2 "(1, 0, 0)" "(0, 0)" "pi / 2" 1]
  by (simp add: s_skyrmion_def Let_def arctan2_def)

end
